theory Spec2Isabelle
  imports Complex_Main
begin

section \<open>Data model of NetworkHelpers.py\<close>

text \<open>
  Python floats are modelled as reals; the only non-finite float the module creates itself
  is \<open>np.Inf\<close>, the initial value of \<open>valid_loss_min\<close>, so the best validation loss is a
  real extended by plus infinity. Counters and epoch numbers are Python ints.
\<close>

datatype ext = Fin real | PInf

text \<open>\<open>valid_loss <= valid_loss_min\<close>: a float against the best value so far.\<close>

fun le_ext :: "real \<Rightarrow> ext \<Rightarrow> bool" where
  "le_ext v PInf = True"
| "le_ext v (Fin m) = (v \<le> m)"

text \<open>The order on best values, used to state that the best value never grows.\<close>

fun ext_le :: "ext \<Rightarrow> ext \<Rightarrow> bool" where
  "ext_le a PInf = True"
| "ext_le PInf (Fin m) = False"
| "ext_le (Fin v) (Fin m) = (v \<le> m)"

datatype error = TypeError | ZeroDivisionError | IndexError | ValueError

text \<open>What \<open>train_model\<close> hands back: a float, or \<open>None\<close> when no \<open>return\<close> is reached.\<close>

datatype pyval = PyNone | PyFloat real

text \<open>
  Every \<open>print\<close> of the module, in the order of the source; durations are left out of the
  timing lines.
\<close>

datatype event =
    PrintTraining
  | PrintBatchLoss int nat real
  | PrintTrainTook int
  | PrintEvaluation
  | PrintEpochStats int int real real
  | PrintDecreased ext real
  | PrintNoImprovement int
  | PrintEvalTook int
  | PrintTotalTook
  | PrintTrainingTook
  | PrintEvaluationTook
  | PrintTestLoss real
  | PrintClassAccuracy string nat nat nat
  | PrintClassNA string
  | PrintOverall nat nat nat

text \<open>
  The mutable surroundings: the model's state (parameters and mode), the files written by
  \<open>torch.save\<close> in order, and the console.
\<close>

record 'm world =
  model :: 'm
  files :: "(string \<times> 'm) list"
  out :: "event list"

text \<open>
  \<open>NetParams\<close>. A batch \<open>(data, target)\<close> is the list of its samples, each an input with
  its label, so \<open>data.size(0)\<close> and \<open>len(target.data)\<close> are its length. The collaborators
  are functions of the model state: \<open>loss_item m b\<close> is
  \<open>criterion(model(data), target).item()\<close>; \<open>optimizer_step m b\<close> is the model after
  \<open>zero_grad\<close>, the forward pass, \<open>loss.backward()\<close> and \<open>optimizer.step()\<close> on that batch;
  \<open>predict m x\<close> is the class of maximum score; \<open>model_train\<close> and \<open>model_eval\<close> switch
  the mode. The flag \<open>train_on_gpu\<close> only moves tensors and changes no value.
\<close>

record ('m, 'x) netparams =
  n_epochs :: int
  max_no_improve_epochs :: int
  batch_size :: int
  train_on_gpu :: bool
  train_loader :: "('x \<times> int) list list"
  validation_loader :: "('x \<times> int) list list"
  test_loader :: "('x \<times> int) list list"
  train_sampler_len :: nat
  validation_sampler_len :: nat
  test_dataset_len :: nat
  loss_item :: "'m \<Rightarrow> ('x \<times> int) list \<Rightarrow> real"
  optimizer_step :: "'m \<Rightarrow> ('x \<times> int) list \<Rightarrow> 'm"
  predict :: "'m \<Rightarrow> 'x \<Rightarrow> int"
  model_train :: "'m \<Rightarrow> 'm"
  model_eval :: "'m \<Rightarrow> 'm"

record DatasetModel =
  class_num :: int
  classes :: "string list"

section \<open>train_model\<close>

text \<open>
  The loop over \<open>enumerate(train_loader)\<close>. The \<open>return train_loss\<close> of the source is
  the last statement of the loop body, so the equation for a non-empty rest does not
  recurse; when the loader is empty the body never runs and the function ends without a
  \<open>return\<close>, which in Python yields \<open>None\<close>. The reset of \<open>train_loss_tmp\<close> after
  the progress line is followed by that \<open>return\<close> at once and leaves no trace.
\<close>

fun train_batches ::
  "('m, 'x) netparams \<Rightarrow> int \<Rightarrow> (nat \<times> ('x \<times> int) list) list \<Rightarrow> real \<Rightarrow> real \<Rightarrow> 'm world
     \<Rightarrow> pyval \<times> 'm world" where
  "train_batches np epoch [] train_loss_tmp train_loss w = (PyNone, w)"
| "train_batches np epoch ((batch_i, b) # rest) train_loss_tmp train_loss w =
     (let loss = loss_item np (model w) b;
          w1 = w\<lparr>model := optimizer_step np (model w) b\<rparr>;
          train_loss_tmp1 = train_loss_tmp + loss;
          train_loss1 = train_loss + loss * real (length b);
          w2 = (if batch_i mod 20 = 19
                then w1\<lparr>out := out w1 @ [PrintBatchLoss epoch (batch_i + 1) (train_loss_tmp1 / 20)]\<rparr>
                else w1)
      in (PyFloat train_loss1, w2))"

definition train_model ::
  "('m, 'x) netparams \<Rightarrow> real \<Rightarrow> real \<Rightarrow> int \<Rightarrow> 'm world \<Rightarrow> pyval \<times> 'm world" where
  "train_model np train_loss_tmp train_loss epoch w =
     train_batches np epoch (enumerate 0 (train_loader np)) train_loss_tmp train_loss
       (w\<lparr>model := model_train np (model w), out := out w @ [PrintTraining]\<rparr>)"

section \<open>evaluate_model\<close>

text \<open>Python's \<open>f'{epoch:03d}'\<close>: decimal, zero-padded to width 3, the sign counted.\<close>

definition digit_char :: "nat \<Rightarrow> char" where
  "digit_char d = ''0123456789'' ! d"

fun dec_digits :: "nat \<Rightarrow> string" where
  "dec_digits n = (if n < 10 then [digit_char n]
                   else dec_digits (n div 10) @ [digit_char (n mod 10)])"

declare dec_digits.simps [simp del]

definition zfill :: "nat \<Rightarrow> string \<Rightarrow> string" where
  "zfill width s = replicate (width - length s) (CHR ''0'') @ s"

definition format_03d :: "int \<Rightarrow> string" where
  "format_03d e = (if e < 0 then CHR ''-'' # zfill 2 (dec_digits (nat (- e)))
                   else zfill 3 (dec_digits (nat e)))"

definition checkpoint_name :: "int \<Rightarrow> string" where
  "checkpoint_name epoch = format_03d epoch @ ''model_cifar.pt''"

text \<open>The validation pass: \<open>valid_loss += loss.item() * data.size(0)\<close> for each batch.\<close>

fun validation_batches ::
  "('m, 'x) netparams \<Rightarrow> 'm \<Rightarrow> ('x \<times> int) list list \<Rightarrow> real \<Rightarrow> real" where
  "validation_batches np m [] valid_loss = valid_loss"
| "validation_batches np m (b # rest) valid_loss =
     validation_batches np m rest (valid_loss + loss_item np m b * real (length b))"

text \<open>
  What a call of \<open>evaluate_model\<close> leaves behind: the returned best value, the two history
  lists (Python lists, appended to in place, so the caller sees the change), the world,
  and the final value of the local variable \<open>no_improvement\<close>. The latter is an int passed
  by value: the assignments to it inside \<open>evaluate_model\<close> are not seen by the caller and
  the value is not returned; it is kept here only to speak about it.
\<close>

record 'm eval_result =
  er_valid_loss_min :: ext
  er_train_loss_array :: "real list"
  er_valid_loss_array :: "real list"
  er_local_no_improvement :: int
  er_world :: "'m world"

definition evaluate_model ::
  "('m, 'x) netparams \<Rightarrow> pyval \<Rightarrow> real \<Rightarrow> ext \<Rightarrow> real list \<Rightarrow> real list \<Rightarrow> int \<Rightarrow> int
     \<Rightarrow> 'm world \<Rightarrow> error + 'm eval_result" where
  "evaluate_model np train_loss valid_loss valid_loss_min valid_loss_array train_loss_array
       epoch no_improvement w =
     (let w1 = w\<lparr>model := model_eval np (model w), out := out w @ [PrintEvaluation]\<rparr>;
          valid_sum = validation_batches np (model w1) (validation_loader np) valid_loss
      in case train_loss of
           PyNone \<Rightarrow> Inl TypeError
         | PyFloat train_sum \<Rightarrow>
             if train_sampler_len np = 0 then Inl ZeroDivisionError
             else if validation_sampler_len np = 0 then Inl ZeroDivisionError
             else
               (let train_mean = train_sum / real (train_sampler_len np);
                    valid_mean = valid_sum / real (validation_sampler_len np);
                    w2 = w1\<lparr>out := out w1 @
                            [PrintEpochStats epoch (n_epochs np) train_mean valid_mean]\<rparr>;
                    train_loss_array1 = train_loss_array @ [train_mean];
                    valid_loss_array1 = valid_loss_array @ [valid_mean]
                in if le_ext valid_mean valid_loss_min
                   then Inr \<lparr>er_valid_loss_min = Fin valid_mean,
                             er_train_loss_array = train_loss_array1,
                             er_valid_loss_array = valid_loss_array1,
                             er_local_no_improvement = 0,
                             er_world = w2\<lparr>out := out w2 @ [PrintDecreased valid_loss_min valid_mean],
                                           files := files w2 @ [(checkpoint_name epoch, model w2)]\<rparr>\<rparr>
                   else Inr \<lparr>er_valid_loss_min = valid_loss_min,
                             er_train_loss_array = train_loss_array1,
                             er_valid_loss_array = valid_loss_array1,
                             er_local_no_improvement = no_improvement + 1,
                             er_world = w2\<lparr>out := out w2 @ [PrintNoImprovement (no_improvement + 1)]\<rparr>\<rparr>))"

section \<open>train_loop\<close>

text \<open>The variables of \<open>train_loop\<close> that change from epoch to epoch.\<close>

record 'm loop_state =
  ls_valid_loss_min :: ext
  ls_train_loss_array :: "real list"
  ls_valid_loss_array :: "real list"
  ls_world :: "'m world"

text \<open>
  The \<open>for epoch in range(1, n_epochs + 1)\<close> loop over the epochs still to come. The
  parameter \<open>no_improvement\<close> of \<open>train_loop\<close> is read at the head of each iteration and
  passed to \<open>evaluate_model\<close>; the loop assigns only \<open>valid_loss_min\<close> from the call, so
  the counter it consults is the same in every iteration. An exception of
  \<open>evaluate_model\<close> ends the run.
\<close>

fun train_epochs ::
  "('m, 'x) netparams \<Rightarrow> int \<Rightarrow> int list \<Rightarrow> 'm loop_state \<Rightarrow> error + 'm loop_state" where
  "train_epochs np no_improvement [] s = Inr s"
| "train_epochs np no_improvement (epoch # rest) s =
     (if no_improvement \<ge> max_no_improve_epochs np then Inr s
      else
        (case train_model np 0 0 epoch (ls_world s) of
           (train_loss, w1) \<Rightarrow>
             (case evaluate_model np train_loss 0 (ls_valid_loss_min s) (ls_valid_loss_array s)
                     (ls_train_loss_array s) epoch no_improvement
                     (w1\<lparr>out := out w1 @ [PrintTrainTook epoch]\<rparr>) of
                Inl e \<Rightarrow> Inl e
              | Inr r \<Rightarrow>
                  train_epochs np no_improvement rest
                    \<lparr>ls_valid_loss_min = er_valid_loss_min r,
                     ls_train_loss_array = er_train_loss_array r,
                     ls_valid_loss_array = er_valid_loss_array r,
                     ls_world = (er_world r)\<lparr>out := out (er_world r) @ [PrintEvalTook epoch]\<rparr>\<rparr>)))"

definition initial_state :: "'m world \<Rightarrow> 'm loop_state" where
  "initial_state w =
     \<lparr>ls_valid_loss_min = PInf, ls_train_loss_array = [], ls_valid_loss_array = [],
      ls_world = w\<rparr>"

definition train_loop ::
  "('m, 'x) netparams \<Rightarrow> int \<Rightarrow> 'm world \<Rightarrow> error + ((real list \<times> real list) \<times> 'm world)" where
  "train_loop np no_improvement w =
     (case train_epochs np no_improvement [1..n_epochs np] (initial_state w) of
        Inl e \<Rightarrow> Inl e
      | Inr s \<Rightarrow>
          Inr ((ls_train_loss_array s, ls_valid_loss_array s),
               (ls_world s)\<lparr>out := out (ls_world s) @
                  [PrintTotalTook, PrintTrainingTook, PrintEvaluationTook]\<rparr>))"

section \<open>test_model\<close>

text \<open>
  Indexing a Python list of the given length: a negative index counts from the end, an
  index outside both ranges raises \<open>IndexError\<close>.
\<close>

definition py_index :: "nat \<Rightarrow> int \<Rightarrow> error + nat" where
  "py_index len i =
     (if 0 \<le> i \<and> i < int len then Inr (nat i)
      else if i < 0 \<and> - int len \<le> i then Inr (nat (i + int len))
      else Inl IndexError)"

text \<open>
  \<open>correct = np.squeeze(correct_tensor.numpy())\<close> followed by \<open>correct[i]\<close>: squeezing
  removes an axis of length one, so for a batch of a single sample the array has no axis
  left and indexing it raises \<open>IndexError\<close>.
\<close>

definition squeezed_item :: "bool list \<Rightarrow> nat \<Rightarrow> error + bool" where
  "squeezed_item correct i =
     (if length correct = 1 then Inl IndexError
      else if i < length correct then Inr (correct ! i)
      else Inl IndexError)"

text \<open>
  The loop \<open>for i in range(batch_size)\<close> over the samples of one batch. The counts are
  kept by the source in floats that only ever hold whole numbers; they are naturals here.
  In \<open>class_correct[label] += correct[i].item()\<close> the list element is read before the
  right-hand side is computed.
\<close>

fun count_samples ::
  "int list \<Rightarrow> bool list \<Rightarrow> nat list \<Rightarrow> nat list \<times> nat list \<Rightarrow> error + (nat list \<times> nat list)" where
  "count_samples labels correct [] (class_correct, class_total) =
     Inr (class_correct, class_total)"
| "count_samples labels correct (i # rest) (class_correct, class_total) =
     (if length labels \<le> i then Inl IndexError
      else
        (let label = labels ! i
         in case py_index (length class_correct) label of
              Inl e \<Rightarrow> Inl e
            | Inr k \<Rightarrow>
                (case squeezed_item correct i of
                   Inl e \<Rightarrow> Inl e
                 | Inr c \<Rightarrow>
                     (case py_index (length class_total) label of
                        Inl e \<Rightarrow> Inl e
                      | Inr k' \<Rightarrow>
                          count_samples labels correct rest
                            (class_correct[k := class_correct ! k + (if c then 1 else 0)],
                             class_total[k' := class_total ! k' + 1])))))"

text \<open>
  The loop over \<open>test_loader\<close>. A batch shorter than \<open>batch_size\<close> ends the loop
  (\<open>break\<close>): neither it nor any batch after it is looked at.
\<close>

fun test_batches ::
  "('m, 'x) netparams \<Rightarrow> 'm \<Rightarrow> ('x \<times> int) list list \<Rightarrow> real \<times> nat list \<times> nat list
     \<Rightarrow> error + (real \<times> nat list \<times> nat list)" where
  "test_batches np m [] (test_loss, class_correct, class_total) =
     Inr (test_loss, class_correct, class_total)"
| "test_batches np m (b # rest) (test_loss, class_correct, class_total) =
     (if int (length b) < batch_size np then Inr (test_loss, class_correct, class_total)
      else
        (let loss = loss_item np m b;
             test_loss1 = test_loss + loss * real (length b);
             correct = map (\<lambda>(x, label). predict np m x = label) b
         in case count_samples (map snd b) correct [0..<nat (batch_size np)]
                   (class_correct, class_total) of
              Inl e \<Rightarrow> Inl e
            | Inr (class_correct1, class_total1) \<Rightarrow>
                test_batches np m rest (test_loss1, class_correct1, class_total1)))"

text \<open>\<open>'%2d' % (100 * correct / total)\<close>: the percentage, cut to a whole number.\<close>

definition percent :: "nat \<Rightarrow> nat \<Rightarrow> nat" where
  "percent c t = (100 * c) div t"

text \<open>
  The loop \<open>for i in range(class_num)\<close> that prints one line per class. Both branches
  read \<open>working_ds.classes[i]\<close>, which raises when the descriptor has fewer names than
  classes; the lines printed before stay on the console.
\<close>

fun class_lines ::
  "DatasetModel \<Rightarrow> nat list \<Rightarrow> nat list \<Rightarrow> nat list \<Rightarrow> event list \<Rightarrow> event list \<times> error option" where
  "class_lines working_ds class_correct class_total [] printed = (printed, None)"
| "class_lines working_ds class_correct class_total (i # rest) printed =
     (if length (classes working_ds) \<le> i then (printed, Some IndexError)
      else class_lines working_ds class_correct class_total rest
             (printed @
              [if class_total ! i > 0
               then PrintClassAccuracy (classes working_ds ! i)
                      (percent (class_correct ! i) (class_total ! i))
                      (class_correct ! i) (class_total ! i)
               else PrintClassNA (classes working_ds ! i)]))"

text \<open>
  \<open>test_model\<close> returns nothing; its result is the console and the exception it ends
  with, if any. The overall line divides the two \<open>np.sum\<close> values: for a zero total numpy
  yields NaN instead of raising, and \<open>'%2d'\<close> of NaN raises \<open>ValueError\<close>.
\<close>

definition test_model ::
  "('m, 'x) netparams \<Rightarrow> DatasetModel \<Rightarrow> 'm world \<Rightarrow> 'm world \<times> error option" where
  "test_model np working_ds w =
     (let n = nat (class_num working_ds);
          w1 = w\<lparr>model := model_eval np (model w)\<rparr>
      in case test_batches np (model w1) (test_loader np) (0, replicate n 0, replicate n 0) of
           Inl e \<Rightarrow> (w1, Some e)
         | Inr (test_sum, class_correct, class_total) \<Rightarrow>
             if test_dataset_len np = 0 then (w1, Some ZeroDivisionError)
             else
               (let test_loss = test_sum / real (test_dataset_len np);
                    w2 = w1\<lparr>out := out w1 @ [PrintTestLoss test_loss]\<rparr>
                in case class_lines working_ds class_correct class_total [0..<n] [] of
                     (printed, Some e) \<Rightarrow> (w2\<lparr>out := out w2 @ printed\<rparr>, Some e)
                   | (printed, None) \<Rightarrow>
                       if sum_list class_total = 0
                       then (w2\<lparr>out := out w2 @ printed\<rparr>, Some ValueError)
                       else (w2\<lparr>out := out w2 @ printed @
                               [PrintOverall
                                  (percent (sum_list class_correct) (sum_list class_total))
                                  (sum_list class_correct) (sum_list class_total)]\<rparr>,
                             None)))"

section \<open>What a test pass retains\<close>

text \<open>
  A batch passes the guard \<open>len(target.data) < batch_size\<close> when it has at least
  \<open>batch_size\<close> samples. The loop ends at the first batch that does not, so the batches
  it works on are the longest prefix of the loader made of passing batches; of each of
  them the first \<open>batch_size\<close> samples enter the class counts. A label within range
  selects the slot that Python indexing gives it.
\<close>

definition full_batch :: "('m, 'x) netparams \<Rightarrow> ('x \<times> int) list \<Rightarrow> bool" where
  "full_batch np b = (batch_size np \<le> int (length b))"

definition retained :: "('m, 'x) netparams \<Rightarrow> ('x \<times> int) list list" where
  "retained np = takeWhile (full_batch np) (test_loader np)"

definition counted :: "('m, 'x) netparams \<Rightarrow> ('x \<times> int) list" where
  "counted np = concat (map (take (nat (batch_size np))) (retained np))"

definition class_slot :: "nat \<Rightarrow> int \<Rightarrow> nat" where
  "class_slot n label = (if 0 \<le> label then nat label else nat (label + int n))"

text \<open>
  The specification's reading, to compare with: the retained batches are the batches whose
  size equals the configured batch size, wherever they stand in the source, and the mean
  test loss is their sum of loss times batch size over the size of the data set.
\<close>

definition spec_retained :: "('m, 'x) netparams \<Rightarrow> ('x \<times> int) list list" where
  "spec_retained np = filter (\<lambda>b. int (length b) = batch_size np) (test_loader np)"

definition spec_mean_test_loss :: "('m, 'x) netparams \<Rightarrow> 'm \<Rightarrow> real" where
  "spec_mean_test_loss np m =
     (\<Sum>b\<leftarrow>spec_retained np. loss_item np m b * real (length b)) / real (test_dataset_len np)"

section \<open>Concrete runs\<close>

text \<open>
  A model whose state counts the optimizer steps taken so far, with inputs that are plain
  numbers. In \<open>scenario_np\<close> the training source is a single batch of four samples, the
  validation source a single batch of one sample, and the loss depends on the number of
  steps only, so that the mean validation losses of epochs 1, 2 and 3 are 0.5, 0.6
  and 0.4.
\<close>

definition scenario_np :: "(nat, nat) netparams" where
  "scenario_np =
     \<lparr>n_epochs = 3, max_no_improve_epochs = 1, batch_size = 4, train_on_gpu = False,
      train_loader = [[(0, 0), (1, 1), (2, 0), (3, 1)]],
      validation_loader = [[(4, 0)]],
      test_loader = [],
      train_sampler_len = 4, validation_sampler_len = 1, test_dataset_len = 0,
      loss_item = (\<lambda>m b. if m = 1 then 1 / 2 else if m = 2 then 3 / 5 else 2 / 5),
      optimizer_step = (\<lambda>m b. Suc m),
      predict = (\<lambda>m x. 0),
      model_train = (\<lambda>m. m), model_eval = (\<lambda>m. m)\<rparr>"

text \<open>
  The same sources with four epochs, patience 5 and a loss that grows with every step:
  the validation loss is best in epoch 1 and worse in each later epoch.
\<close>

definition stall_np :: "(nat, nat) netparams" where
  "stall_np = scenario_np\<lparr>n_epochs := 4, max_no_improve_epochs := 5,
      loss_item := (\<lambda>m b. real m / 10)\<rparr>"

definition world0 :: "nat world" where
  "world0 = \<lparr>model = 0, files = [], out = []\<rparr>"

text \<open>
  A test source of five samples in batches of two, two and one, with the short batch in
  the middle; every batch has loss 1 and the model predicts class 0 for every input.
\<close>

definition break_np :: "(nat, nat) netparams" where
  "break_np = scenario_np\<lparr>batch_size := 2,
      test_loader := [[(0, 0), (1, 1)], [(2, 0)], [(3, 1), (4, 1)]],
      test_dataset_len := 5,
      loss_item := (\<lambda>m b. 1)\<rparr>"

definition two_classes :: DatasetModel where
  "two_classes = \<lparr>class_num = 2, classes = [''cat'', ''dog'']\<rparr>"


text \<open>The lines of the console that speak about improvement.\<close>

fun improvement_line :: "event \<Rightarrow> bool" where
  "improvement_line (PrintNoImprovement k) = True"
| "improvement_line (PrintDecreased a b) = True"
| "improvement_line e = False"

text \<open>
  An iteration of the epoch loop that runs to its end prints its evaluation time last, so
  the number of executed epochs can be read off the console.
\<close>

fun eval_took :: "event \<Rightarrow> bool" where
  "eval_took (PrintEvalTook e) = True"
| "eval_took e = False"

definition executed_epochs :: "event list \<Rightarrow> nat" where
  "executed_epochs printed = length (filter eval_took printed)"

section \<open>Evaluation helpers\<close>

lemma upto_from_1: "[1..numeral n] = 1 # [2..numeral n]"
  by (simp add: upto_rec1)

lemma replicate_numeral_unfold: "replicate (numeral k) x = x # replicate (pred_numeral k) x"
  by (simp add: numeral_eq_Suc)

lemmas run_simps =
  upto_from_1 upto_rec_numeral replicate_numeral_unfold train_loop_def world0_def
  initial_state_def train_model_def evaluate_model_def Let_def checkpoint_name_def
  format_03d_def zfill_def dec_digits.simps digit_char_def

lemma upt_0_numeral: "[0..<numeral k] = 0 # map Suc [0..<pred_numeral k]"
  by (simp add: numeral_eq_Suc upt_conv_Cons map_Suc_upt del: upt_Suc)

lemmas test_simps = upt_0_numeral replicate_numeral_unfold
  test_model_def break_np_def scenario_np_def two_classes_def world0_def Let_def
  py_index_def squeezed_item_def percent_def upt_rec_numeral

lemma break_accumulate_2:
  "test_batches break_np (model_eval break_np (model world0)) (test_loader break_np)
     (0, replicate 2 0, replicate 2 0) = Inr (2, [1, 0], [1, 1])"
  by (simp add: test_simps)


lemma scenario_evaluate:
  "evaluate_model scenario_np (PyFloat (8 / 5)) 0 (Fin 1) [] [] 7 0 (world0\<lparr>model := 2\<rparr>) =
     Inr \<lparr>er_valid_loss_min = Fin (3 / 5), er_train_loss_array = [2 / 5],
          er_valid_loss_array = [3 / 5], er_local_no_improvement = 0,
          er_world = \<lparr>model = 2, files = [(''007model_cifar.pt'', 2)],
                      out = [PrintEvaluation, PrintEpochStats 7 3 (2 / 5) (3 / 5),
                             PrintDecreased (Fin 1) (3 / 5)]\<rparr>\<rparr>"
  by (simp add: run_simps scenario_np_def)

section \<open>The training pass\<close>

text \<open>
  Claim C1. The claim asks that \<open>train_model\<close> works through every batch of the training
  source before it returns the accumulated sum. The code returns at the end of the first
  iteration: whatever batches \<open>bs\<close> follow the first batch \<open>b\<close>, the result is the
  contribution of \<open>b\<close> alone and the model has taken the single optimizer step on \<open>b\<close>.
\<close>

theorem train_model_returns_after_first_batch:
  "train_model (np\<lparr>train_loader := b # bs\<rparr>) train_loss_tmp train_loss epoch w =
     (PyFloat (train_loss + loss_item np (model_train np (model w)) b * real (length b)),
      w\<lparr>model := optimizer_step np (model_train np (model w)) b,
        out := out w @ [PrintTraining]\<rparr>)"
  by (simp add: train_model_def Let_def)

text \<open>
  Claim C6. The claim asks for a zero loss when the training source yields no batch. With
  an empty loader the loop body, which holds the only \<open>return\<close>, never runs, and the
  function yields \<open>None\<close>; the evaluation that follows then fails with a \<open>TypeError\<close> when
  it divides that value by the sample count.
\<close>

theorem train_model_empty_loader_returns_None:
  "train_model (np\<lparr>train_loader := []\<rparr>) train_loss_tmp train_loss epoch w =
     (PyNone, w\<lparr>model := model_train np (model w), out := out w @ [PrintTraining]\<rparr>)
   \<and> evaluate_model np PyNone valid_loss valid_loss_min valid_loss_array train_loss_array
         epoch no_improvement w' = Inl TypeError"
  by (simp add: train_model_def evaluate_model_def Let_def)

section \<open>Early stopping\<close>

text \<open>
  Claim C2. With three epochs, patience 1 and mean validation losses 0.5, 0.6, 0.4 the
  claim asks that the loop stops before epoch 3. The code runs all three epochs: epoch 3 is
  trained and evaluated, its losses are recorded and its checkpoint is written.
\<close>

theorem train_loop_scenario_runs_epoch_3:
  "train_loop scenario_np 0 world0 =
     Inr (([2 / 5, 1 / 2, 3 / 5], [1 / 2, 3 / 5, 2 / 5]),
          \<lparr>model = 3,
           files = [(''001model_cifar.pt'', 1), (''003model_cifar.pt'', 3)],
           out = [PrintTraining, PrintTrainTook 1, PrintEvaluation,
                  PrintEpochStats 1 3 (2 / 5) (1 / 2), PrintDecreased PInf (1 / 2),
                  PrintEvalTook 1,
                  PrintTraining, PrintTrainTook 2, PrintEvaluation,
                  PrintEpochStats 2 3 (1 / 2) (3 / 5), PrintNoImprovement 1,
                  PrintEvalTook 2,
                  PrintTraining, PrintTrainTook 3, PrintEvaluation,
                  PrintEpochStats 3 3 (3 / 5) (2 / 5), PrintDecreased (Fin (1 / 2)) (2 / 5),
                  PrintEvalTook 3,
                  PrintTotalTook, PrintTrainingTook, PrintEvaluationTook]\<rparr>)"
  by (simp add: run_simps scenario_np_def)

text \<open>
  Claim C3. The claim asks that the counter consulted by the epoch loop goes back to 0 on
  an improving epoch and grows by one on every other epoch. In a run of four epochs whose
  validation loss improves in epoch 1 only, the counter should read 1, 2, 3 after epochs
  2, 3, 4. The code reports "No improvement for 1 epochs" three times: each call of
  \<open>evaluate_model\<close> starts from the unchanged counter 0 of \<open>train_loop\<close>.
\<close>

theorem train_loop_counter_never_advances:
  "map_sum id (\<lambda>(r, w). (r, filter improvement_line (out w))) (train_loop stall_np 0 world0) =
     Inr (([0, 1 / 10, 1 / 5, 3 / 10], [1 / 10, 1 / 5, 3 / 10, 2 / 5]),
          [PrintDecreased PInf (1 / 10), PrintNoImprovement 1, PrintNoImprovement 1,
           PrintNoImprovement 1])"
  by (simp add: run_simps scenario_np_def stall_np_def)

section \<open>The evaluation pass\<close>

lemma validation_batches_sum:
  "validation_batches np m bs acc = acc + (\<Sum>b\<leftarrow>bs. loss_item np m b * real (length b))"
  by (induction bs arbitrary: acc) simp_all

text \<open>
  Claim C9. When the training sum is a float and both sample counts are positive,
  \<open>evaluate_model\<close> returns; the training sum is divided by the sample count of the
  training source and the validation sum (the start value plus loss times batch length over
  all validation batches) by the sample count of the validation source, and the two means
  are appended to the two histories. The sample counts are fields of their own, independent
  of the number of batches.
\<close>

theorem evaluate_model_normalizes_by_sample_counts:
  assumes "0 < train_sampler_len np" and "0 < validation_sampler_len np"
  shows "\<exists>r. evaluate_model np (PyFloat train_sum) valid_loss valid_loss_min valid_loss_array
                 train_loss_array epoch no_improvement w = Inr r
           \<and> er_train_loss_array r =
               train_loss_array @ [train_sum / real (train_sampler_len np)]
           \<and> er_valid_loss_array r =
               valid_loss_array @
                 [(valid_loss + (\<Sum>b\<leftarrow>validation_loader np.
                      loss_item np (model_eval np (model w)) b * real (length b)))
                  / real (validation_sampler_len np)]"
  using assms by (simp add: evaluate_model_def Let_def validation_batches_sum)

theorem evaluate_model_normalizes_by_sample_counts_witness:
  "0 < train_sampler_len scenario_np \<and> 0 < validation_sampler_len scenario_np
   \<and> (\<exists>r. evaluate_model scenario_np (PyFloat (8 / 5)) 0 PInf [1 / 2] [2 / 5] 2 0
              (world0\<lparr>model := 2\<rparr>) = Inr r
          \<and> er_train_loss_array r = [2 / 5, 2 / 5]
          \<and> er_valid_loss_array r = [1 / 2, 3 / 5])"
  using evaluate_model_normalizes_by_sample_counts
          [of scenario_np "8 / 5" 0 PInf "[1 / 2]" "[2 / 5]" 2 0 "world0\<lparr>model := 2\<rparr>"]
  by (simp add: scenario_np_def world0_def)




section \<open>The best validation loss\<close>

lemma ext_le_refl: "ext_le a a"
  by (cases a) simp_all

lemma ext_le_trans: "ext_le a b \<Longrightarrow> ext_le b c \<Longrightarrow> ext_le a c"
  by (cases a; cases b; cases c) simp_all

lemma le_ext_Fin: "le_ext v m \<Longrightarrow> ext_le (Fin v) m"
  by (cases m) simp_all

lemma evaluate_model_min_cases:
  assumes "evaluate_model np tloss vl vmin varr tarr epoch ni w = Inr r"
  shows "er_valid_loss_min r = vmin \<or> (\<exists>v. er_valid_loss_min r = Fin v \<and> le_ext v vmin)"
  using assms by (auto simp: evaluate_model_def Let_def split: pyval.splits if_splits)

lemma evaluate_model_min_le:
  assumes "evaluate_model np tloss vl vmin varr tarr epoch ni w = Inr r"
  shows "ext_le (er_valid_loss_min r) vmin"
  using evaluate_model_min_cases [OF assms] by (auto simp: ext_le_refl le_ext_Fin)

lemma train_epochs_min_le:
  "train_epochs np ni es s = Inr s' \<Longrightarrow> ext_le (ls_valid_loss_min s') (ls_valid_loss_min s)"
proof (induction es arbitrary: s)
  case Nil
  then show ?case by (simp add: ext_le_refl)
next
  case (Cons epoch es)
  show ?case
  proof (cases "max_no_improve_epochs np \<le> ni")
    case True
    with Cons.prems show ?thesis by (simp add: ext_le_refl)
  next
    case False
    obtain train_loss w1 where tm: "train_model np 0 0 epoch (ls_world s) = (train_loss, w1)"
      by (cases "train_model np 0 0 epoch (ls_world s)")
    from Cons.prems False tm obtain r where
      ev: "evaluate_model np train_loss 0 (ls_valid_loss_min s) (ls_valid_loss_array s)
             (ls_train_loss_array s) epoch ni (w1\<lparr>out := out w1 @ [PrintTrainTook epoch]\<rparr>) = Inr r"
      and rest: "train_epochs np ni es
             \<lparr>ls_valid_loss_min = er_valid_loss_min r,
              ls_train_loss_array = er_train_loss_array r,
              ls_valid_loss_array = er_valid_loss_array r,
              ls_world = (er_world r)\<lparr>out := out (er_world r) @ [PrintEvalTook epoch]\<rparr>\<rparr> = Inr s'"
      by (auto split: sum.splits)
    from Cons.IH [OF rest] have "ext_le (ls_valid_loss_min s') (er_valid_loss_min r)" by simp
    then show ?thesis using evaluate_model_min_le [OF ev] by (rule ext_le_trans)
  qed
qed

lemma train_epochs_append:
  "train_epochs np ni (es1 @ es2) s =
     (case train_epochs np ni es1 s of Inl e \<Rightarrow> Inl e | Inr s1 \<Rightarrow> train_epochs np ni es2 s1)"
proof (induction es1 arbitrary: s)
  case Nil
  then show ?case by simp
next
  case (Cons epoch es1)
  show ?case
  proof (cases "max_no_improve_epochs np \<le> ni")
    case True
    then show ?thesis by (cases es2) simp_all
  next
    case False
    then show ?thesis using Cons.IH
      by (simp split: prod.splits sum.splits)
  qed
qed

text \<open>
  Claim C4. The best validation loss starts at plus infinity. One evaluation either leaves
  it as it is or replaces it by a value that is at most the old one. Over a run, the best
  value after any longer sequence of epochs is at most the best value after any prefix of
  that sequence.
\<close>

theorem valid_loss_min_non_increasing:
  "ls_valid_loss_min (initial_state w) = PInf
   \<and> (evaluate_model np train_loss valid_loss valid_loss_min valid_loss_array train_loss_array
         epoch no_improvement w' = Inr r \<longrightarrow>
        (er_valid_loss_min r = valid_loss_min
         \<or> (\<exists>v. er_valid_loss_min r = Fin v \<and> le_ext v valid_loss_min)))
   \<and> (train_epochs np no_improvement (es1 @ es2) s = Inr s2 \<longrightarrow>
        (\<exists>s1. train_epochs np no_improvement es1 s = Inr s1
              \<and> ext_le (ls_valid_loss_min s2) (ls_valid_loss_min s1)))"
proof (intro conjI impI)
  show "ls_valid_loss_min (initial_state w) = PInf"
    by (simp add: initial_state_def)
next
  assume "evaluate_model np train_loss valid_loss valid_loss_min valid_loss_array
            train_loss_array epoch no_improvement w' = Inr r"
  then show "er_valid_loss_min r = valid_loss_min
             \<or> (\<exists>v. er_valid_loss_min r = Fin v \<and> le_ext v valid_loss_min)"
    by (rule evaluate_model_min_cases)
next
  assume run: "train_epochs np no_improvement (es1 @ es2) s = Inr s2"
  then obtain s1 where s1: "train_epochs np no_improvement es1 s = Inr s1"
    and s2: "train_epochs np no_improvement es2 s1 = Inr s2"
    by (auto simp: train_epochs_append split: sum.splits)
  from train_epochs_min_le [OF s2] s1
  show "\<exists>s1. train_epochs np no_improvement es1 s = Inr s1
              \<and> ext_le (ls_valid_loss_min s2) (ls_valid_loss_min s1)"
    by blast
qed

theorem valid_loss_min_non_increasing_witness:
  "evaluate_model scenario_np (PyFloat (8 / 5)) 0 (Fin 1) [] [] 7 0 (world0\<lparr>model := 2\<rparr>) =
     Inr \<lparr>er_valid_loss_min = Fin (3 / 5), er_train_loss_array = [2 / 5],
          er_valid_loss_array = [3 / 5], er_local_no_improvement = 0,
          er_world = \<lparr>model = 2, files = [(''007model_cifar.pt'', 2)],
                      out = [PrintEvaluation, PrintEpochStats 7 3 (2 / 5) (3 / 5),
                             PrintDecreased (Fin 1) (3 / 5)]\<rparr>\<rparr>
   \<and> (\<exists>v. Fin (3 / 5) = Fin v \<and> le_ext v (Fin 1))
   \<and> train_epochs scenario_np 0 ([1] @ [2]) (initial_state world0) =
       Inr \<lparr>ls_valid_loss_min = Fin (1 / 2), ls_train_loss_array = [2 / 5, 1 / 2],
            ls_valid_loss_array = [1 / 2, 3 / 5],
            ls_world = \<lparr>model = 2, files = [(''001model_cifar.pt'', 1)],
                        out = [PrintTraining, PrintTrainTook 1, PrintEvaluation,
                               PrintEpochStats 1 3 (2 / 5) (1 / 2), PrintDecreased PInf (1 / 2),
                               PrintEvalTook 1,
                               PrintTraining, PrintTrainTook 2, PrintEvaluation,
                               PrintEpochStats 2 3 (1 / 2) (3 / 5), PrintNoImprovement 1,
                               PrintEvalTook 2]\<rparr>\<rparr>
   \<and> (\<exists>s1. train_epochs scenario_np 0 [1] (initial_state world0) = Inr s1
          \<and> ext_le (Fin (1 / 2)) (ls_valid_loss_min s1))"
proof -
  let ?R = "\<lparr>er_valid_loss_min = Fin (3 / 5), er_train_loss_array = [2 / 5],
          er_valid_loss_array = [3 / 5], er_local_no_improvement = 0,
          er_world = \<lparr>model = 2, files = [(''007model_cifar.pt'', 2)],
                      out = [PrintEvaluation, PrintEpochStats 7 3 (2 / 5) (3 / 5),
                             PrintDecreased (Fin 1) (3 / 5)]\<rparr>\<rparr> :: nat eval_result"
  let ?S = "\<lparr>ls_valid_loss_min = Fin (1 / 2), ls_train_loss_array = [2 / 5, 1 / 2],
            ls_valid_loss_array = [1 / 2, 3 / 5],
            ls_world = \<lparr>model = 2, files = [(''001model_cifar.pt'', 1)],
                        out = [PrintTraining, PrintTrainTook 1, PrintEvaluation,
                               PrintEpochStats 1 3 (2 / 5) (1 / 2), PrintDecreased PInf (1 / 2),
                               PrintEvalTook 1,
                               PrintTraining, PrintTrainTook 2, PrintEvaluation,
                               PrintEpochStats 2 3 (1 / 2) (3 / 5), PrintNoImprovement 1,
                               PrintEvalTook 2]\<rparr>\<rparr> :: nat loop_state"
  note inst = valid_loss_min_non_increasing
      [where np = scenario_np and no_improvement = 0 and ?es1.0 = "[1]" and ?es2.0 = "[2]"
         and s = "initial_state world0" and ?s2.0 = ?S and train_loss = "PyFloat (8 / 5)"
         and valid_loss = 0 and valid_loss_min = "Fin 1" and valid_loss_array = "[]"
         and train_loss_array = "[]" and epoch = 7 and w' = "world0\<lparr>model := 2\<rparr>"
         and r = ?R and w = world0]
  have run: "train_epochs scenario_np 0 ([1] @ [2]) (initial_state world0) = Inr ?S"
    by (simp add: run_simps scenario_np_def)
  have "er_valid_loss_min ?R = Fin 1
        \<or> (\<exists>v. er_valid_loss_min ?R = Fin v \<and> le_ext v (Fin 1))"
    using inst scenario_evaluate by blast
  then have "\<exists>v. Fin (3 / 5) = Fin v \<and> le_ext v (Fin 1)"
    by simp
  moreover have "\<exists>s1. train_epochs scenario_np 0 [1] (initial_state world0) = Inr s1
          \<and> ext_le (ls_valid_loss_min ?S) (ls_valid_loss_min s1)"
    using inst run by blast
  ultimately show ?thesis
    using scenario_evaluate run by simp
qed

section \<open>The loss histories\<close>

lemma train_batches_executed:
  "executed_epochs (out (snd (train_batches np epoch bs tmp tls w))) = executed_epochs (out w)"
  by (cases bs) (auto simp: executed_epochs_def Let_def)

lemma train_model_executed:
  "train_model np tmp tls epoch w = (r, w1) \<Longrightarrow> executed_epochs (out w1) = executed_epochs (out w)"
  using train_batches_executed [of np epoch "enumerate 0 (train_loader np)" tmp tls
       "w\<lparr>model := model_train np (model w), out := out w @ [PrintTraining]\<rparr>"]
  by (simp add: train_model_def executed_epochs_def)

lemma evaluate_model_lengths:
  assumes "evaluate_model np tloss vl vmin varr tarr epoch ni w = Inr r"
  shows "length (er_train_loss_array r) = Suc (length tarr)"
    and "length (er_valid_loss_array r) = Suc (length varr)"
    and "executed_epochs (out (er_world r)) = executed_epochs (out w)"
  using assms
  by (auto simp: evaluate_model_def Let_def executed_epochs_def split: pyval.splits if_splits)

lemma train_epochs_lengths:
  assumes "train_epochs np ni es s = Inr s'"
  shows "length (ls_train_loss_array s') = length (ls_train_loss_array s) + (if max_no_improve_epochs np \<le> ni then 0 else length es)
       \<and> length (ls_valid_loss_array s') = length (ls_valid_loss_array s) + (if max_no_improve_epochs np \<le> ni then 0 else length es)
       \<and> executed_epochs (out (ls_world s')) = executed_epochs (out (ls_world s)) + (if max_no_improve_epochs np \<le> ni then 0 else length es)"
  using assms
proof (induction es arbitrary: s)
  case Nil
  then show ?case by simp
next
  case (Cons epoch es)
  show ?case
  proof (cases "max_no_improve_epochs np \<le> ni")
    case True
    with Cons.prems show ?thesis by simp
  next
    case False
    obtain train_loss w1 where tm: "train_model np 0 0 epoch (ls_world s) = (train_loss, w1)"
      by (cases "train_model np 0 0 epoch (ls_world s)")
    from Cons.prems False tm obtain r where
      ev: "evaluate_model np train_loss 0 (ls_valid_loss_min s) (ls_valid_loss_array s)
             (ls_train_loss_array s) epoch ni (w1\<lparr>out := out w1 @ [PrintTrainTook epoch]\<rparr>) = Inr r"
      and rest: "train_epochs np ni es
             \<lparr>ls_valid_loss_min = er_valid_loss_min r,
              ls_train_loss_array = er_train_loss_array r,
              ls_valid_loss_array = er_valid_loss_array r,
              ls_world = (er_world r)\<lparr>out := out (er_world r) @ [PrintEvalTook epoch]\<rparr>\<rparr> = Inr s'"
      by (auto split: sum.splits)
    have e1: "executed_epochs (out (er_world r) @ [PrintEvalTook epoch]) = Suc (executed_epochs (out (ls_world s)))"
      using evaluate_model_lengths(3) [OF ev] train_model_executed [OF tm]
      by (simp add: executed_epochs_def)
    from Cons.IH [OF rest] False evaluate_model_lengths(1,2) [OF ev] e1
    show ?thesis by simp
  qed
qed

text \<open>
  Claim C10. When \<open>train_loop\<close> returns, its two histories have the same length, and that
  length is the number of epochs the run executed: the count of completed iterations on the
  console grows by exactly it. Each executed epoch appends one entry to each list (see
  \<open>evaluate_model_lengths\<close>), so a run that executes no epoch returns two empty lists.
\<close>

theorem train_loop_histories_same_length:
  assumes "train_loop np no_improvement w = Inr ((train_loss_array, valid_loss_array), w')"
  shows "length train_loss_array = length valid_loss_array
       \<and> executed_epochs (out w') = executed_epochs (out w) + length train_loss_array"
proof -
  from assms obtain s where
    run: "train_epochs np no_improvement [1..n_epochs np] (initial_state w) = Inr s"
    and res: "train_loss_array = ls_train_loss_array s" "valid_loss_array = ls_valid_loss_array s"
      "w' = (ls_world s)\<lparr>out := out (ls_world s) @ [PrintTotalTook, PrintTrainingTook, PrintEvaluationTook]\<rparr>"
    by (auto simp: train_loop_def split: sum.splits)
  from train_epochs_lengths [OF run] res show ?thesis
    by (simp add: initial_state_def executed_epochs_def)
qed

theorem train_loop_histories_same_length_witness:
  "train_loop (scenario_np\<lparr>n_epochs := 1\<rparr>) 0 world0 =
     Inr (([2 / 5], [1 / 2]),
          \<lparr>model = 1, files = [(''001model_cifar.pt'', 1)],
           out = [PrintTraining, PrintTrainTook 1, PrintEvaluation,
                  PrintEpochStats 1 1 (2 / 5) (1 / 2), PrintDecreased PInf (1 / 2),
                  PrintEvalTook 1, PrintTotalTook, PrintTrainingTook, PrintEvaluationTook]\<rparr>)
   \<and> length [2 / 5 :: real] = length [1 / 2 :: real]
   \<and> executed_epochs [PrintTraining, PrintTrainTook 1, PrintEvaluation,
                  PrintEpochStats 1 1 (2 / 5) (1 / 2), PrintDecreased PInf (1 / 2),
                  PrintEvalTook 1, PrintTotalTook, PrintTrainingTook, PrintEvaluationTook] = 1"
proof -
  have run: "train_loop (scenario_np\<lparr>n_epochs := 1\<rparr>) 0 world0 =
     Inr (([2 / 5], [1 / 2]),
          \<lparr>model = 1, files = [(''001model_cifar.pt'', 1)],
           out = [PrintTraining, PrintTrainTook 1, PrintEvaluation,
                  PrintEpochStats 1 1 (2 / 5) (1 / 2), PrintDecreased PInf (1 / 2),
                  PrintEvalTook 1, PrintTotalTook, PrintTrainingTook, PrintEvaluationTook]\<rparr>)"
    by (simp add: run_simps scenario_np_def upto.simps [of 1 1] upto.simps [of 2 1])
  from train_loop_histories_same_length [OF run] run show ?thesis
    by (simp add: world0_def executed_epochs_def)
qed

section \<open>The test pass\<close>

lemma py_index_slot:
  assumes "py_index n label = Inr k"
  shows "k = class_slot n label \<and> k < n"
  using assms by (auto simp: py_index_def class_slot_def split: if_splits)

lemma squeezed_item_nth:
  assumes "squeezed_item correct i = Inr c"
  shows "c = correct ! i \<and> i < length correct"
  using assms by (auto simp: squeezed_item_def split: if_splits)

lemma count_samples_step:
  assumes "count_samples labels correct (i # idx) (cc, ct) = Inr r"
  shows "\<exists>k c k'. i < length labels
           \<and> py_index (length cc) (labels ! i) = Inr k
           \<and> squeezed_item correct i = Inr c
           \<and> py_index (length ct) (labels ! i) = Inr k'
           \<and> count_samples labels correct idx
                (cc[k := cc ! k + (if c then 1 else 0)], ct[k' := ct ! k' + 1]) = Inr r"
proof -
  from assms have inr: "i < length labels"
    by (simp split: if_splits)
  obtain k where k: "py_index (length cc) (labels ! i) = Inr k"
    using assms inr by (cases "py_index (length cc) (labels ! i)") (simp_all add: Let_def)
  obtain c where c: "squeezed_item correct i = Inr c"
    using assms inr k by (cases "squeezed_item correct i") (simp_all add: Let_def)
  obtain k' where k': "py_index (length ct) (labels ! i) = Inr k'"
    using assms inr k c by (cases "py_index (length ct) (labels ! i)") (simp_all add: Let_def)
  from assms inr k c k' show ?thesis
    by (simp add: Let_def)
qed

lemma count_samples_counts:
  assumes "count_samples labels correct idx (cc, ct) = Inr (cc', ct')"
    and "length cc = n" and "length ct = n"
  shows "length cc' = n \<and> length ct' = n
       \<and> (\<forall>k<n. ct' ! k = ct ! k + length (filter (\<lambda>i. class_slot n (labels ! i) = k) idx)
               \<and> cc' ! k = cc ! k
                    + length (filter (\<lambda>i. class_slot n (labels ! i) = k \<and> correct ! i) idx))"
  using assms
proof (induction idx arbitrary: cc ct)
  case Nil
  then show ?case by simp
next
  case (Cons i idx)
  from count_samples_step [OF Cons.prems(1)] obtain k c k' where
    k: "py_index (length cc) (labels ! i) = Inr k"
    and c: "squeezed_item correct i = Inr c"
    and k': "py_index (length ct) (labels ! i) = Inr k'"
    and rest: "count_samples labels correct idx
                 (cc[k := cc ! k + (if c then 1 else 0)], ct[k' := ct ! k' + 1]) = Inr (cc', ct')"
    by blast
  have slot: "k = class_slot n (labels ! i)" "k < n"
    using py_index_slot [OF k] Cons.prems(2) by simp_all
  have slot': "k' = k"
    using py_index_slot [OF k'] slot(1) Cons.prems(3) by simp
  have cv: "c = correct ! i"
    using squeezed_item_nth [OF c] by simp
  have len: "length (cc[k := cc ! k + (if c then 1 else 0)]) = n"
    "length (ct[k' := ct ! k' + 1]) = n"
    using Cons.prems(2,3) by simp_all
  note ih = Cons.IH [OF rest len]
  show ?case
  proof (intro conjI allI impI)
    show "length cc' = n" "length ct' = n"
      using ih by simp_all
  next
    fix j assume j: "j < n"
    from ih j have t: "ct' ! j = ct[k' := ct ! k' + 1] ! j
                 + length (filter (\<lambda>i. class_slot n (labels ! i) = j) idx)"
      by simp
    show "ct' ! j = ct ! j + length (filter (\<lambda>i. class_slot n (labels ! i) = j) (i # idx))"
    proof (cases "j = k")
      case True
      with t slot slot' Cons.prems(3) show ?thesis by simp
    next
      case False
      with t slot slot' show ?thesis by simp
    qed
  next
    fix j assume j: "j < n"
    from ih j have t: "cc' ! j = cc[k := cc ! k + (if c then 1 else 0)] ! j
                 + length (filter (\<lambda>i. class_slot n (labels ! i) = j \<and> correct ! i) idx)"
      by simp
    show "cc' ! j = cc ! j
            + length (filter (\<lambda>i. class_slot n (labels ! i) = j \<and> correct ! i) (i # idx))"
    proof (cases "j = k")
      case True
      with t slot cv Cons.prems(2) show ?thesis by simp
    next
      case False
      with t slot show ?thesis by simp
    qed
  qed
qed

lemma map_nth_upt_take:
  assumes "k \<le> length xs"
  shows "map (nth xs) [0..<k] = take k xs"
  using assms by (intro nth_equalityI) simp_all

lemma count_over_indices:
  assumes "k \<le> length xs"
  shows "length (filter (\<lambda>i. P (xs ! i)) [0..<k]) = length (filter P (take k xs))"
proof -
  have "length (filter P (map (nth xs) [0..<k])) = length (filter (P \<circ> nth xs) [0..<k])"
    by (simp add: filter_map)
  then show ?thesis
    using map_nth_upt_take [OF assms] by (simp add: comp_def)
qed

lemma count_batch:
  assumes cs: "count_samples (map snd b) (map (\<lambda>(x, l). predict np m x = l) b)
             [0..<nat (batch_size np)] (cc, ct) = Inr (cc', ct')"
    and full: "full_batch np b" and len: "length cc = n" "length ct = n"
  shows "length cc' = n \<and> length ct' = n
       \<and> (\<forall>k<n. ct' ! k = ct ! k
                  + length (filter (\<lambda>(x, l). class_slot n l = k) (take (nat (batch_size np)) b))
               \<and> cc' ! k = cc ! k
                  + length (filter (\<lambda>(x, l). class_slot n l = k \<and> predict np m x = l)
                      (take (nat (batch_size np)) b)))"
proof -
  from full have le: "nat (batch_size np) \<le> length b"
    by (simp add: full_batch_def)
  have t: "filter (\<lambda>i. class_slot n (map snd b ! i) = k) [0..<nat (batch_size np)]
         = filter (\<lambda>i. (\<lambda>(x, l). class_slot n l = k) (b ! i)) [0..<nat (batch_size np)]" for k
    using le by (intro filter_cong) (auto simp: split_beta)
  have c: "filter (\<lambda>i. class_slot n (map snd b ! i) = k
                       \<and> map (\<lambda>(x, l). predict np m x = l) b ! i) [0..<nat (batch_size np)]
         = filter (\<lambda>i. (\<lambda>(x, l). class_slot n l = k \<and> predict np m x = l) (b ! i))
             [0..<nat (batch_size np)]" for k
    using le by (intro filter_cong) (auto simp: split_beta)
  from count_samples_counts [OF cs len] show ?thesis
    by (simp only: t c count_over_indices [OF le]) simp
qed

lemma test_batches_retained:
  "test_batches np m bs acc = test_batches np m (takeWhile (full_batch np) bs) acc"
proof (induction bs arbitrary: acc)
  case Nil
  then show ?case by simp
next
  case (Cons b bs)
  obtain s cc ct where acc: "acc = (s, cc, ct)"
    by (cases acc)
  show ?case
  proof (cases "full_batch np b")
    case True
    then have "\<not> int (length b) < batch_size np"
      by (simp add: full_batch_def)
    with True Cons.IH show ?thesis
      by (simp add: acc Let_def split: sum.splits prod.splits)
  next
    case False
    then show ?thesis
      by (simp add: acc full_batch_def)
  qed
qed

lemma test_batches_counts:
  assumes "test_batches np m bs (s, cc, ct) = Inr (s', cc', ct')"
    and "length cc = n" and "length ct = n"
  shows "s' = s + (\<Sum>b\<leftarrow>takeWhile (full_batch np) bs. loss_item np m b * real (length b))
       \<and> length cc' = n \<and> length ct' = n
       \<and> (\<forall>k<n. ct' ! k = ct ! k
                  + length (filter (\<lambda>(x, l). class_slot n l = k)
                      (concat (map (take (nat (batch_size np))) (takeWhile (full_batch np) bs))))
               \<and> cc' ! k = cc ! k
                  + length (filter (\<lambda>(x, l). class_slot n l = k \<and> predict np m x = l)
                      (concat (map (take (nat (batch_size np))) (takeWhile (full_batch np) bs)))))"
  using assms
proof (induction bs arbitrary: s cc ct)
  case Nil
  then show ?case by simp
next
  case (Cons b bs)
  show ?case
  proof (cases "full_batch np b")
    case False
    with Cons.prems show ?thesis
      by (simp add: full_batch_def)
  next
    case True
    then have nolt: "\<not> int (length b) < batch_size np"
      by (simp add: full_batch_def)
    obtain cc1 ct1 where
      cs: "count_samples (map snd b) (map (\<lambda>(x, l). predict np m x = l) b)
             [0..<nat (batch_size np)] (cc, ct) = Inr (cc1, ct1)"
      and rest: "test_batches np m bs (s + loss_item np m b * real (length b), cc1, ct1)
                   = Inr (s', cc', ct')"
      using Cons.prems(1) nolt
      by (cases "count_samples (map snd b) (map (\<lambda>(x, l). predict np m x = l) b)
             [0..<nat (batch_size np)] (cc, ct)") (auto simp: Let_def)
    note one = count_batch [OF cs True Cons.prems(2,3)]
    from one have len1: "length cc1 = n" "length ct1 = n"
      by simp_all
    note ih = Cons.IH [OF rest len1]
    show ?thesis
    proof (intro conjI allI impI)
      show "s' = s + (\<Sum>b\<leftarrow>takeWhile (full_batch np) (b # bs). loss_item np m b * real (length b))"
        using ih True by simp
      show "length cc' = n" "length ct' = n"
        using ih by simp_all
    next
      fix k assume k: "k < n"
      show "ct' ! k = ct ! k
                  + length (filter (\<lambda>(x, l). class_slot n l = k)
                      (concat (map (take (nat (batch_size np))) (takeWhile (full_batch np) (b # bs)))))"
        using ih one k True by simp
      show "cc' ! k = cc ! k
                  + length (filter (\<lambda>(x, l). class_slot n l = k \<and> predict np m x = l)
                      (concat (map (take (nat (batch_size np))) (takeWhile (full_batch np) (b # bs)))))"
        using ih one k True by simp
    qed
  qed
qed


lemma test_model_prints_loss:
  assumes "test_batches np (model_eval np (model w)) (test_loader np)
             (0, replicate (nat (class_num ds)) 0, replicate (nat (class_num ds)) 0)
           = Inr (test_sum, cc, ct)"
    and "0 < test_dataset_len np"
  shows "\<exists>rest. out (fst (test_model np ds w)) =
           out w @ PrintTestLoss (test_sum / real (test_dataset_len np)) # rest"
  using assms by (simp add: test_model_def Let_def split: prod.splits option.splits)


lemma retained_split:
  "\<exists>rest. test_loader np = retained np @ rest
         \<and> (case rest of [] \<Rightarrow> True | b # bs \<Rightarrow> int (length b) < batch_size np)"
proof -
  let ?rest = "dropWhile (full_batch np) (test_loader np)"
  have "test_loader np = retained np @ ?rest"
    by (simp add: retained_def)
  moreover have "case ?rest of [] \<Rightarrow> True | b # bs \<Rightarrow> int (length b) < batch_size np"
  proof (cases ?rest)
    case Nil
    then show ?thesis by (simp only: list.case)
  next
    case (Cons b bs)
    then have "\<not> full_batch np b"
      using hd_dropWhile [of "full_batch np" "test_loader np"] by simp
    with Cons show ?thesis by (simp add: full_batch_def)
  qed
  ultimately show ?thesis by blast
qed

text \<open>
  Claim C7, as the code has it. Take a test pass whose accumulation raises no exception,
  over a data set of positive size. The pass stops at the first batch shorter than the
  configured batch size: the batches it retains are the longest prefix of the source whose
  batches all have at least that size, and what follows the prefix is nothing or starts
  with a shorter batch. The reported mean test loss is the sum over the retained batches of
  loss times batch length, divided by the size of the data set. The class counts are taken
  over the first \<open>batch_size\<close> samples of each retained batch, which for a batch of the
  configured size is the whole batch: for each class the total is the number of those
  samples with that label, the correct count the number of them predicted right.
\<close>

theorem test_model_loss_over_retained:
  assumes acc: "test_batches np (model_eval np (model w)) (test_loader np)
             (0, replicate n 0, replicate n 0) = Inr (test_sum, cc, ct)"
    and n: "n = nat (class_num ds)"
    and len: "0 < test_dataset_len np"
  shows "out (fst (test_model np ds w)) ! length (out w) =
           PrintTestLoss ((\<Sum>b\<leftarrow>retained np. loss_item np (model_eval np (model w)) b
                                                * real (length b))
                          / real (test_dataset_len np))
       \<and> (\<forall>k<n. ct ! k = length (filter (\<lambda>(x, l). class_slot n l = k) (counted np))
               \<and> cc ! k = length (filter (\<lambda>(x, l). class_slot n l = k
                                     \<and> predict np (model_eval np (model w)) x = l) (counted np)))
       \<and> (\<forall>b\<in>set (retained np). batch_size np \<le> int (length b))
       \<and> (\<exists>rest. test_loader np = retained np @ rest
                \<and> (case rest of [] \<Rightarrow> True | b # bs \<Rightarrow> int (length b) < batch_size np))"
proof -
  note counts = test_batches_counts [OF acc, of n]
  from counts have sum: "test_sum = (\<Sum>b\<leftarrow>retained np. loss_item np (model_eval np (model w)) b
                                                * real (length b))"
    by (simp add: retained_def)
  from acc n len obtain rest where
    "out (fst (test_model np ds w)) = out w @ PrintTestLoss (test_sum / real (test_dataset_len np)) # rest"
    using test_model_prints_loss by blast
  then have first: "out (fst (test_model np ds w)) ! length (out w) =
      PrintTestLoss (test_sum / real (test_dataset_len np))"
    by simp
  have full: "\<forall>b\<in>set (retained np). batch_size np \<le> int (length b)"
    using set_takeWhileD [of _ "full_batch np" "test_loader np"]
    by (auto simp: retained_def full_batch_def)
  from counts have cnt: "\<forall>k<n. ct ! k = length (filter (\<lambda>(x, l). class_slot n l = k) (counted np))
               \<and> cc ! k = length (filter (\<lambda>(x, l). class_slot n l = k
                                     \<and> predict np (model_eval np (model w)) x = l) (counted np))"
    by (simp add: counted_def retained_def)
  from first sum cnt full retained_split [of np] show ?thesis
    by simp
qed

theorem test_model_loss_over_retained_witness:
  "test_batches break_np (model_eval break_np (model world0)) (test_loader break_np)
     (0, replicate 2 0, replicate 2 0) = Inr (2, [1, 0], [1, 1])
   \<and> (2::nat) = nat (class_num two_classes)
   \<and> 0 < test_dataset_len break_np
   \<and> retained break_np = [[(0, 0), (1, 1)]]
   \<and> counted break_np = [(0, 0), (1, 1)]
   \<and> out (fst (test_model break_np two_classes world0)) ! length (out world0) =
       PrintTestLoss (2 / 5)
   \<and> [1, 1] ! 1 = length (filter (\<lambda>(x, l). class_slot 2 l = 1) (counted break_np))
   \<and> [1, 0 :: nat] ! 1 = length (filter (\<lambda>(x, l). class_slot 2 l = 1
           \<and> predict break_np (model_eval break_np (model world0)) x = l) (counted break_np))"
proof -
  have n: "(2::nat) = nat (class_num two_classes)"
    by (simp add: two_classes_def)
  have len: "0 < test_dataset_len break_np"
    by (simp add: break_np_def scenario_np_def)
  have ret: "retained break_np = [[(0, 0), (1, 1)]]"
    by (simp add: retained_def full_batch_def break_np_def scenario_np_def)
  have cnt: "counted break_np = [(0, 0), (1, 1)]"
    by (simp add: counted_def ret) (simp add: break_np_def scenario_np_def)
  have loss: "(\<Sum>b\<leftarrow>retained break_np. loss_item break_np (model_eval break_np (model world0)) b
                * real (length b)) / real (test_dataset_len break_np) = 2 / 5"
    by (simp add: ret) (simp add: break_np_def scenario_np_def)
  note inst = test_model_loss_over_retained [OF break_accumulate_2 n len]
  from inst loss have first: "out (fst (test_model break_np two_classes world0)) ! length (out world0) =
       PrintTestLoss (2 / 5)"
    by simp
  from inst have "[1, 1] ! 1 = length (filter (\<lambda>(x, l). class_slot 2 l = 1) (counted break_np))
     \<and> [1, 0 :: nat] ! 1 = length (filter (\<lambda>(x, l). class_slot 2 l = 1
           \<and> predict break_np (model_eval break_np (model world0)) x = l) (counted break_np))"
    by (elim conjE allE [of _ 1]) simp
  with break_accumulate_2 n len ret cnt first show ?thesis
    by simp
qed

text \<open>
  Claim C7, as it is stated, fails: it takes every batch of the configured size to be
  included. In a source of batches of two, one and two samples with batch size 2, the pass
  ends at the middle batch; the last batch has the full size but enters neither the loss
  nor the counts. The code reports a mean loss of 2/5 over one retained batch, where the
  batches of full size give 4/5.
\<close>

theorem test_model_skips_full_batch_after_short:
  "test_model break_np two_classes world0 =
     (world0\<lparr>out := [PrintTestLoss (2 / 5), PrintClassAccuracy ''cat'' 100 1 1,
                     PrintClassAccuracy ''dog'' 0 0 1, PrintOverall 50 1 2]\<rparr>, None)
   \<and> spec_retained break_np = [[(0, 0), (1, 1)], [(3, 1), (4, 1)]]
   \<and> spec_mean_test_loss break_np (model_eval break_np (model world0)) = 4 / 5
   \<and> out (fst (test_model break_np two_classes world0)) ! 0
       \<noteq> PrintTestLoss (spec_mean_test_loss break_np (model_eval break_np (model world0)))"
proof -
  have run: "test_model break_np two_classes world0 =
     (world0\<lparr>out := [PrintTestLoss (2 / 5), PrintClassAccuracy ''cat'' 100 1 1,
                     PrintClassAccuracy ''dog'' 0 0 1, PrintOverall 50 1 2]\<rparr>, None)"
    by (simp add: test_simps) (simp flip: numeral_2_eq_2)
  have ret: "spec_retained break_np = [[(0, 0), (1, 1)], [(3, 1), (4, 1)]]"
    by (simp add: spec_retained_def break_np_def scenario_np_def)
  have smean: "spec_mean_test_loss break_np (model_eval break_np (model world0)) = 4 / 5"
    by (simp add: spec_mean_test_loss_def ret) (simp add: break_np_def scenario_np_def)
  show ?thesis
    by (simp add: run ret smean)
qed



end
